theory Spec2Isabelle
  imports Complex_Main
begin

section \<open>Python values\<close>

text \<open>
  A Python \<open>str\<close> is a sequence of Unicode code points. The model is a HOL \<open>string\<close>
  whose characters stand for the code points U+0000 to U+00FF (so \<open>of_char c\<close> is the
  code point and \<open>length\<close> counts code points). Only \<open>_get_collection_name\<close> looks
  inside a string; every other string of the program is carried around unchanged.
  Python integers are \<open>int\<close>; indices produced by \<open>enumerate\<close> and \<open>len\<close> are \<open>nat\<close>.
  The distances and similarity scores (Python floats) are modelled as \<open>real\<close>.
\<close>

datatype error =
    ValueError string
  | RuntimeError string
  | AttributeError string
  | StorageError string

text \<open>\<open>str.isalnum()\<close> on one code point below U+0100: true for the ASCII letters and
  digits, and for the letters and numeric characters of the Latin-1 block.\<close>

definition py_isalnum :: "char \<Rightarrow> bool" where
  "py_isalnum c =
     (let n = (of_char c :: nat)
      in (48 \<le> n \<and> n \<le> 57) \<or> (65 \<le> n \<and> n \<le> 90) \<or> (97 \<le> n \<and> n \<le> 122)
         \<or> n = 170 \<or> (178 \<le> n \<and> n \<le> 179) \<or> n = 181 \<or> (185 \<le> n \<and> n \<le> 186)
         \<or> (188 \<le> n \<and> n \<le> 190) \<or> (192 \<le> n \<and> n \<le> 214)
         \<or> (216 \<le> n \<and> n \<le> 246) \<or> (248 \<le> n \<and> n \<le> 255))"

text \<open>\<open>str.lower()\<close> on one code point below U+0100: A-Z and the upper-case Latin-1
  letters (U+00C0-U+00D6, U+00D8-U+00DE) move up by 32, everything else stays.\<close>

definition py_lower_char :: "char \<Rightarrow> char" where
  "py_lower_char c =
     (let n = (of_char c :: nat)
      in if (65 \<le> n \<and> n \<le> 90) \<or> (192 \<le> n \<and> n \<le> 214) \<or> (216 \<le> n \<and> n \<le> 222)
         then char_of (n + 32) else c)"

definition py_lower :: "string \<Rightarrow> string" where
  "py_lower s = map py_lower_char s"

text \<open>\<open>s.replace(old, new)\<close> for one-character \<open>old\<close> and \<open>new\<close>.\<close>

definition py_replace :: "char \<Rightarrow> char \<Rightarrow> string \<Rightarrow> string" where
  "py_replace old new s = map (\<lambda>c. if c = old then new else c) s"

text \<open>\<open>xs[i:j]\<close>: negative bounds count from the end, and both bounds are clipped to
  the list.\<close>

definition py_bound :: "nat \<Rightarrow> int \<Rightarrow> nat" where
  "py_bound n i = (if i < 0 then nat (max (i + int n) 0) else min (nat i) n)"

definition py_slice :: "'a list \<Rightarrow> int \<Rightarrow> int \<Rightarrow> 'a list" where
  "py_slice xs i j = drop (py_bound (length xs) i) (take (py_bound (length xs) j) xs)"

text \<open>\<open>str(n)\<close> for a non-negative integer: its decimal digits.\<close>

definition digit_char :: "nat \<Rightarrow> char" where
  "digit_char d = ''0123456789'' ! d"

fun py_str :: "nat \<Rightarrow> string" where
  "py_str n = (if n < 10 then [digit_char n] else py_str (n div 10) @ [digit_char (n mod 10)])"

declare py_str.simps [simp del]

text \<open>\<open>max(a, b)\<close> and \<open>min(a, b)\<close> of two arguments keep the first unless the second
  is strictly larger (smaller).\<close>

definition py_max :: "real \<Rightarrow> real \<Rightarrow> real" where
  "py_max a b = (if b > a then b else a)"

definition py_min :: "real \<Rightarrow> real \<Rightarrow> real" where
  "py_min a b = (if b < a then b else a)"

section \<open>config/settings.py\<close>

definition TOP_K_RESULTS :: int where
  "TOP_K_RESULTS = 5"

definition CHUNK_SIZE :: int where
  "CHUNK_SIZE = 1000"

definition CHUNK_OVERLAP :: int where
  "CHUNK_OVERLAP = 200"

section \<open>core/retriever.py: collection names\<close>

text \<open>
  \<^verbatim>\<open>name = f"repo_{repo_name}".replace("-", "_").replace(".", "_")\<close>
  \<^verbatim>\<open>name = "".join(c for c in name if c.isalnum() or c in "_-.")\<close>
  \<^verbatim>\<open>return name[:63].lower()\<close>
\<close>

definition get_collection_name :: "string \<Rightarrow> string" where
  "get_collection_name repo_name =
     (let name = py_replace (CHR ''.'') (CHR ''_'')
                   (py_replace (CHR ''-'') (CHR ''_'') (''repo_'' @ repo_name));
          name = filter (\<lambda>c. py_isalnum c \<or> c \<in> set ''_-.'') name
      in py_lower (py_slice name 0 63))"

text \<open>The pattern \<^verbatim>\<open>^[a-z0-9_.-]{1,63}$\<close>.\<close>

definition name_char :: "char \<Rightarrow> bool" where
  "name_char c =
     (let n = (of_char c :: nat)
      in (97 \<le> n \<and> n \<le> 122) \<or> (48 \<le> n \<and> n \<le> 57)
         \<or> c = CHR ''_'' \<or> c = CHR ''.'' \<or> c = CHR ''-'')"

definition matches_name_pattern :: "string \<Rightarrow> bool" where
  "matches_name_pattern s = (1 \<le> length s \<and> length s \<le> 63 \<and> list_all name_char s)"

definition is_ascii :: "string \<Rightarrow> bool" where
  "is_ascii s = list_all (\<lambda>c. (of_char c :: nat) < 128) s"

section \<open>core/code_parser.py\<close>

record CodeDocument =
  content :: string
  file_path :: string
  language :: string
  chunk_id :: int

text \<open>
  \<open>CodeParser\<close> holds the two chunking settings and the tiktoken encoder. The encoder is
  a library object: its \<open>encode\<close> (which raises on some texts) and \<open>decode\<close> are fields
  of the parser, and tokens are natural numbers.
\<close>

record CodeParser =
  chunk_size :: int
  chunk_overlap :: int
  encode :: "string \<Rightarrow> error + nat list"
  decode :: "nat list \<Rightarrow> string"

definition CodeParser_init ::
  "(string \<Rightarrow> error + nat list) \<Rightarrow> (nat list \<Rightarrow> string) \<Rightarrow> CodeParser" where
  "CodeParser_init enc dec =
     \<lparr>chunk_size = CHUNK_SIZE, chunk_overlap = CHUNK_OVERLAP, encode = enc, decode = dec\<rparr>"

definition ext_map :: "(string \<times> string) list" where
  "ext_map =
     [(''.py'', ''python''), (''.js'', ''javascript''), (''.jsx'', ''javascript''),
      (''.ts'', ''typescript''), (''.tsx'', ''typescript''), (''.java'', ''java''),
      (''.cpp'', ''cpp''), (''.c'', ''c''), (''.h'', ''c''), (''.cs'', ''csharp''),
      (''.go'', ''go''), (''.rs'', ''rust''), (''.php'', ''php''), (''.rb'', ''ruby''),
      (''.swift'', ''swift''), (''.kt'', ''kotlin''), (''.scala'', ''scala''),
      (''.md'', ''markdown''), (''.txt'', ''text''), (''.json'', ''json''),
      (''.yaml'', ''yaml''), (''.yml'', ''yaml''), (''.xml'', ''xml''),
      (''.html'', ''html''), (''.css'', ''css''), (''.sh'', ''bash''),
      (''.sql'', ''sql''), (''.r'', ''r''), (''.dart'', ''dart''),
      (''.vue'', ''vue''), (''.svelte'', ''svelte'')]"

text \<open>\<^verbatim>\<open>ext_map.get(file_path.suffix.lower(), 'text')\<close>, on the suffix of the path.\<close>

definition get_language_from_extension :: "string \<Rightarrow> string" where
  "get_language_from_extension suffix =
     (case map_of ext_map (py_lower suffix) of None \<Rightarrow> ''text'' | Some l \<Rightarrow> l)"

text \<open>
  The \<open>while\<close> loop of \<open>chunk_text\<close>, entered with \<open>start = 0\<close>, \<open>chunk_id = 0\<close> and
  \<open>chunks = []\<close>. Whether it ends depends on the two settings, so the loop is a partial
  function: \<open>None\<close> means that it never returns.
\<close>

partial_function (option) chunk_loop ::
  "CodeParser \<Rightarrow> nat list \<Rightarrow> string \<Rightarrow> string \<Rightarrow> int \<Rightarrow> int \<Rightarrow> CodeDocument list
     \<Rightarrow> CodeDocument list option" where
  "chunk_loop p tokens fp lang start cid chunks =
     (if start < int (length tokens) then
        (let stop = start + chunk_size p;
             chunk_tokens = py_slice tokens start stop;
             chunk_text = decode p chunk_tokens;
             chunks' = chunks @ [\<lparr>content = chunk_text, file_path = fp, language = lang,
                                  chunk_id = cid\<rparr>];
             start' = stop - chunk_overlap p;
             cid' = cid + 1
         in if start' \<ge> int (length tokens) - chunk_overlap p then Some chunks'
            else chunk_loop p tokens fp lang start' cid' chunks')
      else Some chunks)"

declare chunk_loop.simps [code]

text \<open>\<open>chunk_text\<close>: \<open>Some (Inl e)\<close> when the encoder raises, \<open>Some (Inr chunks)\<close> when
  the chunks are returned.\<close>

definition chunk_text ::
  "CodeParser \<Rightarrow> string \<Rightarrow> string \<Rightarrow> string \<Rightarrow> (error + CodeDocument list) option" where
  "chunk_text p text fp lang =
     (case encode p text of
        Inl e \<Rightarrow> Some (Inl e)
      | Inr tokens \<Rightarrow>
          if int (length tokens) \<le> chunk_size p
          then Some (Inr [\<lparr>content = text, file_path = fp, language = lang, chunk_id = 0\<rparr>])
          else map_option Inr (chunk_loop p tokens fp lang 0 0 []))"

text \<open>
  \<open>parse_repository\<close> runs over the files that \<open>FileUtils.scan_repository\<close> found. A file
  is given by its path relative to the repository, the suffix of its name and the text
  that \<open>FileUtils.read_file_content\<close> returned for it (the empty text when the file could
  not be read). A file whose chunking raises is logged and skipped.
\<close>

record source_file =
  sf_relative_path :: string
  sf_suffix :: string
  sf_content :: string

fun parse_files ::
  "CodeParser \<Rightarrow> source_file list \<Rightarrow> CodeDocument list \<Rightarrow> CodeDocument list option" where
  "parse_files p [] documents = Some documents"
| "parse_files p (f # fs) documents =
     (if sf_content f = [] then parse_files p fs documents
      else
        (case chunk_text p (sf_content f) (sf_relative_path f)
                (get_language_from_extension (sf_suffix f)) of
           None \<Rightarrow> None
         | Some (Inl e) \<Rightarrow> parse_files p fs documents
         | Some (Inr chunks) \<Rightarrow> parse_files p fs (documents @ chunks)))"

definition parse_repository :: "CodeParser \<Rightarrow> source_file list \<Rightarrow> CodeDocument list option" where
  "parse_repository p files = parse_files p files []"

text \<open>A tokenizer to run the parser on concrete texts: one token per character.\<close>

definition char_encode :: "string \<Rightarrow> error + nat list" where
  "char_encode s = Inr (map of_char s)"

definition char_decode :: "nat list \<Rightarrow> string" where
  "char_decode ts = map char_of ts"

text \<open>The token window number \<open>k\<close> of a text: \<open>chunk_size\<close> tokens from the offset
  \<open>k * (chunk_size - chunk_overlap)\<close>.\<close>

definition window_start :: "CodeParser \<Rightarrow> nat \<Rightarrow> nat" where
  "window_start p k = k * nat (chunk_size p - chunk_overlap p)"

definition token_window :: "CodeParser \<Rightarrow> nat list \<Rightarrow> nat \<Rightarrow> nat list" where
  "token_window p tokens k =
     take (nat (chunk_size p)) (drop (window_start p k) tokens)"

definition window_chunk :: "CodeParser \<Rightarrow> nat list \<Rightarrow> string \<Rightarrow> string \<Rightarrow> nat \<Rightarrow> CodeDocument" where
  "window_chunk p tokens fp lang k =
     \<lparr>content = decode p (token_window p tokens k), file_path = fp, language = lang,
      chunk_id = int k\<rparr>"

section \<open>core/embeddings.py and the vector index\<close>

text \<open>
  The Ollama service behind \<open>EmbeddingsGenerator._embed\<close> is a parameter
  \<open>emb :: string \<Rightarrow> error + real list\<close> (\<open>Inl\<close> when the request fails). The ChromaDB
  client is the map \<open>store\<close> from collection names to the records of the collection, in
  insertion order. The state also keeps the texts sent to the embedding service and the
  batches passed to \<open>collection.add\<close>, so that "nothing was embedded" and "nothing was
  inserted" can be stated.
\<close>

record metadata =
  meta_file_path :: string
  meta_language :: string
  meta_chunk_id :: int

record stored_record =
  rec_id :: string
  rec_document :: string
  rec_metadata :: metadata
  rec_embedding :: "real list"

record RAGRetriever =
  store :: "string \<rightharpoonup> stored_record list"
  collection :: "string option"
  documents :: "CodeDocument list"
  embed_calls :: "string list"
  add_calls :: "stored_record list list"

definition embed_text ::
  "(string \<Rightarrow> error + real list) \<Rightarrow> string \<Rightarrow> RAGRetriever \<Rightarrow> (error + real list) \<times> RAGRetriever" where
  "embed_text emb text s = (emb text, s\<lparr>embed_calls := embed_calls s @ [text]\<rparr>)"

text \<open>\<^verbatim>\<open>embeddings = [self._embed(text) for text in texts]\<close>: one request per text, in
  order, stopping at the first that fails.\<close>

fun generate_embeddings ::
  "(string \<Rightarrow> error + real list) \<Rightarrow> string list \<Rightarrow> RAGRetriever
     \<Rightarrow> (error + real list list) \<times> RAGRetriever" where
  "generate_embeddings emb [] s = (Inr [], s)"
| "generate_embeddings emb (t # ts) s =
     (case embed_text emb t s of
        (Inl e, s') \<Rightarrow> (Inl e, s')
      | (Inr v, s') \<Rightarrow>
          (case generate_embeddings emb ts s' of
             (Inl e, s'') \<Rightarrow> (Inl e, s'')
           | (Inr vs, s'') \<Rightarrow> (Inr (v # vs), s'')))"

text \<open>\<open>RAGRetriever()\<close> on a given store; constructing the \<open>EmbeddingsGenerator\<close> sends
  the text \<open>test\<close> to the service and fails when that request fails.\<close>

definition RAGRetriever_init ::
  "(string \<Rightarrow> error + real list) \<Rightarrow> (string \<rightharpoonup> stored_record list) \<Rightarrow> error + RAGRetriever" where
  "RAGRetriever_init emb st =
     (case emb ''test'' of
        Inl e \<Rightarrow> Inl e
      | Inr v \<Rightarrow> Inr \<lparr>store = st, collection = None, documents = [],
                      embed_calls = [''test''], add_calls = []\<rparr>)"

text \<open>\<open>_init_client\<close>: \<open>get_or_create_collection\<close> attaches the collection of that name,
  creating it empty when the store has none.\<close>

definition init_client :: "string \<Rightarrow> RAGRetriever \<Rightarrow> RAGRetriever" where
  "init_client collection_name s =
     s\<lparr>store := (case store s collection_name of
                   None \<Rightarrow> (store s)(collection_name \<mapsto> [])
                 | Some rs \<Rightarrow> store s),
       collection := Some collection_name\<rparr>"

definition collection_records :: "RAGRetriever \<Rightarrow> stored_record list" where
  "collection_records s =
     (case collection s of
        None \<Rightarrow> []
      | Some name \<Rightarrow> (case store s name of None \<Rightarrow> [] | Some rs \<Rightarrow> rs))"

text \<open>\<open>self.collection.count()\<close>.\<close>

definition collection_count :: "RAGRetriever \<Rightarrow> nat" where
  "collection_count s = length (collection_records s)"

text \<open>
  \<open>self.collection.add(ids=..., documents=..., metadatas=..., embeddings=...)\<close> takes four
  parallel lists, one record per position. ChromaDB is a library outside the repository;
  its \<open>add\<close> follows the contract of the vector index: an append-only bulk insert with
  ids unique within the collection. The records of a batch are appended when their ids
  are distinct and not yet in the collection, and the batch is refused otherwise.
\<close>

definition zip_records ::
  "string list \<Rightarrow> string list \<Rightarrow> metadata list \<Rightarrow> real list list \<Rightarrow> stored_record list" where
  "zip_records ids contents metadatas embeddings =
     map (\<lambda>(i, c, m, e). \<lparr>rec_id = i, rec_document = c, rec_metadata = m, rec_embedding = e\<rparr>)
       (zip ids (zip contents (zip metadatas embeddings)))"

definition collection_add ::
  "stored_record list \<Rightarrow> RAGRetriever \<Rightarrow> (error + unit) \<times> RAGRetriever" where
  "collection_add batch s =
     (case collection s of
        None \<Rightarrow> (Inl (AttributeError ''add''), s)
      | Some name \<Rightarrow>
          (let s' = s\<lparr>add_calls := add_calls s @ [batch]\<rparr>
           in if distinct (map rec_id batch)
                 \<and> list_all (\<lambda>r. rec_id r \<notin> set (map rec_id (collection_records s))) batch
              then (Inr (), s'\<lparr>store := (store s)(name \<mapsto> collection_records s @ batch)\<rparr>)
              else (Inl (StorageError ''duplicate id''), s')))"

section \<open>core/retriever.py: build_index\<close>

text \<open>\<open>range(0, stop, step)\<close> for a positive step.\<close>

definition py_range_step :: "nat \<Rightarrow> nat \<Rightarrow> int list" where
  "py_range_step stop step = map (\<lambda>k. int (k * step)) [0 ..< (stop + step - 1) div step]"

definition batch_size :: nat where
  "batch_size = 500"

text \<open>The loop \<^verbatim>\<open>for i in range(0, len(documents), batch_size)\<close>, over the list of its
  start indices; a batch that the index refuses ends the build.\<close>

fun add_batches ::
  "int list \<Rightarrow> nat \<Rightarrow> string list \<Rightarrow> string list \<Rightarrow> metadata list \<Rightarrow> real list list
     \<Rightarrow> RAGRetriever \<Rightarrow> (error + unit) \<times> RAGRetriever" where
  "add_batches [] n ids contents metadatas embeddings s = (Inr (), s)"
| "add_batches (i # starts) n ids contents metadatas embeddings s =
     (let stop = min (i + int batch_size) (int n)
      in case collection_add
                (zip_records (py_slice ids i stop) (py_slice contents i stop)
                   (py_slice metadatas i stop) (py_slice embeddings i stop)) s of
           (Inl e, s') \<Rightarrow> (Inl e, s')
         | (Inr u, s') \<Rightarrow> add_batches starts n ids contents metadatas embeddings s')"

definition doc_metadata :: "CodeDocument \<Rightarrow> metadata" where
  "doc_metadata doc =
     \<lparr>meta_file_path = file_path doc, meta_language = language doc,
      meta_chunk_id = chunk_id doc\<rparr>"

definition build_index ::
  "(string \<Rightarrow> error + real list) \<Rightarrow> CodeDocument list \<Rightarrow> string \<Rightarrow> RAGRetriever
     \<Rightarrow> (error + unit) \<times> RAGRetriever" where
  "build_index emb docs repo_name s =
     (if docs = [] then (Inl (ValueError ''No documents provided for indexing''), s)
      else
        (let collection_name = get_collection_name repo_name;
             s1 = init_client collection_name s;
             existing_count = collection_count s1
         in if existing_count > 0 then (Inr (), s1\<lparr>documents := docs\<rparr>)
            else
              (let s2 = s1\<lparr>documents := docs\<rparr>;
                   ids = map (\<lambda>(idx, doc). ''doc_'' @ py_str idx) (enumerate 0 docs);
                   contents = map content docs;
                   metadatas = map doc_metadata docs
               in case generate_embeddings emb contents s2 of
                    (Inl e, s3) \<Rightarrow> (Inl e, s3)
                  | (Inr embeddings, s3) \<Rightarrow>
                      add_batches (py_range_step (length docs) batch_size) (length docs)
                        ids contents metadatas embeddings s3)))"

section \<open>core/retriever.py: retrieve\<close>

text \<open>
  \<open>collection.query\<close> answers with parallel lists of texts, metadata and distances. The
  index is a parameter \<open>qry\<close>, called with the records of the collection, the query
  vector and \<open>n_results\<close>.
\<close>

record query_result =
  qr_documents :: "string list"
  qr_metadatas :: "metadata list"
  qr_distances :: "real list"

text \<open>\<^verbatim>\<open>top_k = top_k or Settings.TOP_K_RESULTS\<close>: \<open>None\<close> and \<open>0\<close> are both false.\<close>

definition resolve_top_k :: "int option \<Rightarrow> int" where
  "resolve_top_k top_k =
     (case top_k of None \<Rightarrow> TOP_K_RESULTS | Some k \<Rightarrow> if k = 0 then TOP_K_RESULTS else k)"

text \<open>\<^verbatim>\<open>similarity = max(0.0, min(1.0, 1 - (dist**2 / 2)))\<close>\<close>

definition similarity :: "real \<Rightarrow> real" where
  "similarity distance = py_max 0 (py_min 1 (1 - (distance ^ 2 / 2)))"

definition retrieved_of :: "query_result \<Rightarrow> (CodeDocument \<times> real) list" where
  "retrieved_of results =
     map (\<lambda>(text, meta, distance).
            (\<lparr>content = text, file_path = meta_file_path meta, language = meta_language meta,
              chunk_id = meta_chunk_id meta\<rparr>, similarity distance))
       (zip (qr_documents results) (zip (qr_metadatas results) (qr_distances results)))"

definition retrieve ::
  "(string \<Rightarrow> error + real list) \<Rightarrow> (stored_record list \<Rightarrow> real list \<Rightarrow> int \<Rightarrow> error + query_result)
     \<Rightarrow> string \<Rightarrow> int option \<Rightarrow> RAGRetriever
     \<Rightarrow> (error + (CodeDocument \<times> real) list) \<times> RAGRetriever" where
  "retrieve emb qry query top_k s =
     (case collection s of
        None \<Rightarrow> (Inl (ValueError ''Collection not initialized''), s)
      | Some name \<Rightarrow>
          (let k = resolve_top_k top_k
           in case embed_text emb query s of
                (Inl e, s1) \<Rightarrow> (Inl e, s1)
              | (Inr query_embedding, s1) \<Rightarrow>
                  (case qry (collection_records s1) query_embedding
                          (min k (int (collection_count s1))) of
                     Inl e \<Rightarrow> (Inl e, s1)
                   | Inr results \<Rightarrow> (Inr (retrieved_of results), s1))))"

text \<open>
  An index to run \<open>retrieve\<close> on concrete stores: the \<open>n_results\<close> records nearest to the
  query vector under the squared Euclidean distance, nearest first.
\<close>

definition l2_distance :: "real list \<Rightarrow> real list \<Rightarrow> real" where
  "l2_distance u v = sum_list (map (\<lambda>(a, b). (a - b) ^ 2) (zip u v))"

definition knn_query :: "stored_record list \<Rightarrow> real list \<Rightarrow> int \<Rightarrow> error + query_result" where
  "knn_query recs v n =
     (let nearest = take (nat n) (sort_key (\<lambda>r. l2_distance v (rec_embedding r)) recs)
      in Inr \<lparr>qr_documents = map rec_document nearest,
              qr_metadatas = map rec_metadata nearest,
              qr_distances = map (\<lambda>r. l2_distance v (rec_embedding r)) nearest\<rparr>)"

text \<open>The index answers in ascending order of distance, and distances are not negative.\<close>

definition ascending_index ::
  "(stored_record list \<Rightarrow> real list \<Rightarrow> int \<Rightarrow> error + query_result) \<Rightarrow> bool" where
  "ascending_index qry =
     (\<forall>recs v n results. qry recs v n = Inr results \<longrightarrow>
        sorted (qr_distances results) \<and> (\<forall>d \<in> set (qr_distances results). 0 \<le> d))"

section \<open>Notions used in the statements\<close>






section \<open>Sample data\<close>

text \<open>An embedding service, two documents and two retriever states to run the model:
  \<open>new_retriever\<close> is a retriever just constructed on an empty store,
  \<open>cached_retriever\<close> the same retriever after it has indexed the repository \<open>demo\<close>
  when that had the single document \<open>doc_old\<close>, and \<open>indexed_retriever\<close> after it has
  indexed the two documents \<open>doc_auth\<close> and \<open>doc_db\<close> instead.\<close>

definition demo_embed :: "string \<Rightarrow> error + real list" where
  "demo_embed text =
     (if text = ''down'' then Inl (RuntimeError ''connection refused'')
      else Inr [real (length text) / 10, 1])"

definition doc_auth :: CodeDocument where
  "doc_auth = \<lparr>content = ''def login(): pass'', file_path = ''auth.py'',
                language = ''python'', chunk_id = 0\<rparr>"

definition doc_db :: CodeDocument where
  "doc_db = \<lparr>content = ''SELECT 1'', file_path = ''db.py'', language = ''python'',
              chunk_id = 0\<rparr>"

definition new_retriever :: RAGRetriever where
  "new_retriever =
     \<lparr>store = Map.empty, collection = None, documents = [], embed_calls = [''test''],
      add_calls = []\<rparr>"



definition indexed_retriever :: RAGRetriever where
  "indexed_retriever = snd (build_index demo_embed [doc_auth, doc_db] ''demo'' new_retriever)"

text \<open>What the sample index answers to the query text \<open>SELECT 123\<close>, whose vector is
  \<open>[1, 1]\<close>, when asked for two or more neighbours.\<close>

definition demo_answer :: query_result where
  "demo_answer =
     \<lparr>qr_documents = [''SELECT 1'', ''def login(): pass''],
      qr_metadatas =
        [\<lparr>meta_file_path = ''db.py'', meta_language = ''python'', meta_chunk_id = 0\<rparr>,
         \<lparr>meta_file_path = ''auth.py'', meta_language = ''python'', meta_chunk_id = 0\<rparr>],
      qr_distances = [1 / 25, 49 / 100]\<rparr>"

section \<open>Collection names\<close>

lemma name_char_lower:
  "(of_char c :: nat) < 128 \<Longrightarrow> py_isalnum c \<or> c \<in> set ''_-.'' \<Longrightarrow> name_char (py_lower_char c)"
  by (auto simp: py_isalnum_def py_lower_char_def name_char_def Let_def)

lemma py_slice_0: "0 \<le> j \<Longrightarrow> py_slice xs 0 j = take (nat j) xs"
  by (simp add: py_slice_def py_bound_def min_def)

text \<open>On a repository name of ASCII characters the collection name has the promised
  form: the prefix \<open>repo_\<close> survives the filter, the cut is at 63, and what the filter
  keeps is lower-cased into \<open>a-z\<close>, \<open>0-9\<close> or \<open>_\<close>.\<close>

lemma get_collection_name_ascii:
  assumes "is_ascii repo_name"
  shows "matches_name_pattern (get_collection_name repo_name)"
proof -
  let ?r = "\<lambda>s. py_replace (CHR ''.'') (CHR ''_'') (py_replace (CHR ''-'') (CHR ''_'') s)"
  let ?P = "\<lambda>c. py_isalnum c \<or> c \<in> set ''_-.''"
  let ?xs = "filter ?P (?r (''repo_'' @ repo_name))"
  have pre: "?xs = ''repo_'' @ filter ?P (?r repo_name)"
    by (simp add: py_replace_def py_isalnum_def)
  have asc: "\<forall>c \<in> set ?xs. (of_char c :: nat) < 128"
    using assms by (auto simp: is_ascii_def list_all_iff py_replace_def)
  have "\<forall>c \<in> set (take 63 ?xs). name_char (py_lower_char c)"
  proof
    fix c assume "c \<in> set (take 63 ?xs)"
    then have "c \<in> set ?xs" by (rule in_set_takeD)
    then show "name_char (py_lower_char c)" using asc name_char_lower by auto
  qed
  moreover have "1 \<le> length (take 63 ?xs)" "length (take 63 ?xs) \<le> 63"
    unfolding pre by simp_all
  ultimately show ?thesis
    by (simp add: get_collection_name_def matches_name_pattern_def py_slice_0 py_lower_def
        list_all_iff)
qed

text \<open>
  Claim C4. The collection name is a function of the repository name alone, and it is
  meant to match \<^verbatim>\<open>^[a-z0-9_.-]{1,63}$\<close>. \<open>str.isalnum\<close> also accepts letters outside
  ASCII, so the filter keeps them: for the repository name \<open>caf\<close> followed by U+00E9
  (e with acute accent) the result is \<open>repo_caf\<close> followed by U+00E9, which is outside
  the pattern.
\<close>

theorem get_collection_name_non_ascii:
  "get_collection_name (''caf'' @ [CHR 0xE9]) = ''repo_caf'' @ [CHR 0xE9]
   \<and> \<not> matches_name_pattern (get_collection_name (''caf'' @ [CHR 0xE9]))"
  by code_simp

section \<open>The chunker\<close>

text \<open>
  Claim C5. A text whose token count is at most \<open>chunk_size\<close> gives exactly one chunk,
  with \<open>chunk_id = 0\<close> and the text itself as content, whatever \<open>decode\<close> would make of
  its tokens.
\<close>

theorem chunk_text_single_chunk:
  assumes "encode p text = Inr tokens"
    and "int (length tokens) \<le> chunk_size p"
  shows "chunk_text p text fp lang =
           Some (Inr [\<lparr>content = text, file_path = fp, language = lang, chunk_id = 0\<rparr>])"
  using assms by (simp add: chunk_text_def)

theorem chunk_text_single_chunk_witness:
  "chunk_text (CodeParser_init char_encode char_decode) ''print(1)'' ''a.py'' ''python'' =
     Some (Inr [\<lparr>content = ''print(1)'', file_path = ''a.py'', language = ''python'',
                 chunk_id = 0\<rparr>])"
proof -
  have h1: "encode (CodeParser_init char_encode char_decode) ''print(1)''
              = Inr (map of_char ''print(1)'')"
    by (simp add: CodeParser_init_def char_encode_def)
  have h2: "int (length (map of_char ''print(1)'' :: nat list))
              \<le> chunk_size (CodeParser_init char_encode char_decode)"
    by (simp add: CodeParser_init_def CHUNK_SIZE_def)
  show ?thesis by (rule chunk_text_single_chunk [OF h1 h2])
qed

subsection \<open>The sliding window\<close>

text \<open>A slice of \<open>sz\<close> elements from a non-negative \<open>start\<close> is a \<open>take\<close> of a \<open>drop\<close>.\<close>

lemma py_slice_window:
  assumes "0 \<le> start" and "0 \<le> sz"
  shows "py_slice xs start (start + sz) = take (nat sz) (drop (nat start) xs)"
proof -
  have "nat (start + sz) - nat start = nat sz" using assms by linarith
  then show ?thesis using assms
    by (auto simp: py_slice_def py_bound_def min_def drop_take)
qed

lemma window_start_Suc:
  "chunk_overlap p < chunk_size p \<Longrightarrow>
   int (window_start p (Suc j)) = int (window_start p j) + chunk_size p - chunk_overlap p"
  by (simp add: window_start_def)

lemma chunk_loop_windows:
  assumes cfg: "0 \<le> chunk_overlap p" "chunk_overlap p < chunk_size p"
    and start: "window_start p j < length tokens"
  shows "\<exists>m>j. chunk_loop p tokens fp lang (int (window_start p j)) (int j) chunks
                 = Some (chunks @ map (window_chunk p tokens fp lang) [j..<m])
           \<and> length tokens \<le> window_start p (m - 1) + nat (chunk_size p)
           \<and> (\<forall>k. j \<le> k \<and> k < m - 1 \<longrightarrow> window_start p k + nat (chunk_size p) < length tokens)"
  using start
proof (induction "length tokens - window_start p j" arbitrary: j chunks rule: less_induct)
  case less
  let ?a = "window_start p j"
  let ?wc = "window_chunk p tokens fp lang"
  have sl: "py_slice tokens (int ?a) (int ?a + chunk_size p) = token_window p tokens j"
    using cfg by (simp add: py_slice_window token_window_def)
  have nxt: "int (window_start p (Suc j)) = int ?a + chunk_size p - chunk_overlap p"
    by (rule window_start_Suc [OF cfg(2)])
  show ?case
  proof (cases "int (length tokens) \<le> int ?a + chunk_size p")
    case True
    have "chunk_loop p tokens fp lang (int ?a) (int j) chunks = Some (chunks @ [?wc j])"
      using True less.prems sl
      by (subst chunk_loop.simps) (simp add: Let_def window_chunk_def)
    moreover have "length tokens \<le> ?a + nat (chunk_size p)" using True by linarith
    ultimately show ?thesis
      by (intro exI[of _ "Suc j"]) simp
  next
    case False
    have lt: "window_start p (Suc j) < length tokens" using False nxt cfg by linarith
    have dec: "length tokens - window_start p (Suc j) < length tokens - ?a"
      using nxt cfg less.prems by linarith
    obtain m where m: "Suc j < m"
      and run: "chunk_loop p tokens fp lang (int (window_start p (Suc j))) (int (Suc j))
                  (chunks @ [?wc j]) = Some ((chunks @ [?wc j]) @ map ?wc [Suc j..<m])"
      and last: "length tokens \<le> window_start p (m - 1) + nat (chunk_size p)"
      and others: "\<forall>k. Suc j \<le> k \<and> k < m - 1 \<longrightarrow> window_start p k + nat (chunk_size p) < length tokens"
      using less.hyps [OF dec lt, of "chunks @ [?wc j]"] by blast
    have step: "chunk_loop p tokens fp lang (int ?a) (int j) chunks
          = chunk_loop p tokens fp lang (int (window_start p (Suc j))) (int (Suc j)) (chunks @ [?wc j])"
      using False less.prems sl
      by (subst chunk_loop.simps) (simp add: Let_def window_chunk_def nxt [symmetric] add.commute [of _ "1::int"])
    have here: "?a + nat (chunk_size p) < length tokens" using False cfg by linarith
    have "\<forall>k. j \<le> k \<and> k < m - 1 \<longrightarrow> window_start p k + nat (chunk_size p) < length tokens"
    proof (intro allI impI)
      fix k assume k: "j \<le> k \<and> k < m - 1"
      show "window_start p k + nat (chunk_size p) < length tokens"
      proof (cases "k = j")
        case True then show ?thesis using here by simp
      next
        case False then show ?thesis using k others by simp
      qed
    qed
    moreover have "[j..<m] = j # [Suc j..<m]" using m by (simp add: upt_conv_Cons)
    ultimately show ?thesis using m run last step
      by (intro exI[of _ m]) simp
  qed
qed

lemma length_token_window:
  "length (token_window p tokens k) = min (nat (chunk_size p)) (length tokens - window_start p k)"
  by (simp add: token_window_def)

lemma windows_cover:
  assumes cfg: "0 \<le> chunk_overlap p" "chunk_overlap p < chunk_size p"
    and m: "0 < m" "length tokens \<le> window_start p (m - 1) + nat (chunk_size p)"
    and i: "i < length tokens"
  shows "\<exists>k<m. window_start p k \<le> i \<and> i < window_start p k + length (token_window p tokens k)
           \<and> token_window p tokens k ! (i - window_start p k) = tokens ! i"
proof -
  define st where "st = nat (chunk_size p - chunk_overlap p)"
  have st: "0 < st" "st \<le> nat (chunk_size p)" using cfg by (simp_all add: st_def)
  define k where "k = min (i div st) (m - 1)"
  have ws: "window_start p k = k * st" by (simp add: window_start_def st_def)
  have lo: "k * st \<le> i"
  proof -
    have "k * st \<le> (i div st) * st" by (simp add: k_def)
    also have "\<dots> \<le> i" by simp
    finally show ?thesis .
  qed
  have hi: "i < k * st + nat (chunk_size p)"
  proof (cases "i div st \<le> m - 1")
    case True
    then have "k = i div st" by (simp add: k_def)
    moreover have "i < (i div st) * st + st" using st(1)
      by (metis add.commute dividend_less_div_times mult.commute)
    ultimately have "i < k * st + st" by simp
    then show ?thesis using st(2) by linarith
  next
    case False
    then have "k = m - 1" by (simp add: k_def)
    then show ?thesis using m(2) i ws by (simp add: window_start_def st_def)
  qed
  have "k < m" using m(1) by (simp add: k_def)
  moreover have "window_start p k \<le> i" using lo ws by simp
  moreover have "i < window_start p k + length (token_window p tokens k)"
    using hi i lo ws by (simp add: length_token_window)
  moreover have "token_window p tokens k ! (i - window_start p k) = tokens ! i"
    using hi i lo ws by (simp add: token_window_def)
  ultimately show ?thesis by blast
qed

lemma concat_consecutive_takes:
  "concat (map (\<lambda>k. take st (drop (a + k * st) xs)) [0..<j]) = take (j * st) (drop a xs)"
proof (induction j)
  case 0 show ?case by simp
next
  case (Suc j)
  have "take (j * st + st) (drop a xs) = take (j * st) (drop a xs) @ take st (drop (j * st) (drop a xs))"
    by (rule take_add)
  then show ?case using Suc by (simp add: add.commute)
qed

lemma windows_concat:
  assumes cfg: "0 \<le> chunk_overlap p" "chunk_overlap p < chunk_size p"
    and m: "0 < m" "length tokens \<le> window_start p (m - 1) + nat (chunk_size p)"
  shows "concat (token_window p tokens 0
                  # map (\<lambda>k. drop (nat (chunk_overlap p)) (token_window p tokens k)) [1..<m])
         = tokens"
proof -
  define st where "st = nat (chunk_size p - chunk_overlap p)"
  define S where "S = nat (chunk_size p)"
  define ov where "ov = nat (chunk_overlap p)"
  have S: "S = ov + st" using cfg by (simp add: S_def ov_def st_def)
  have tail: "drop ov (token_window p tokens (Suc k)) = take st (drop (S + k * st) tokens)" for k
    by (simp add: token_window_def window_start_def drop_take S st_def[symmetric] S_def[symmetric]
        ov_def[symmetric] ac_simps)
  have "map (\<lambda>k. drop ov (token_window p tokens k)) [1..<m]
        = map (\<lambda>k. take st (drop (S + k * st) tokens)) [0..<m - 1]"
  proof -
    have "[1..<m] = map Suc [0..<m - 1]" using m(1) by (simp add: map_Suc_upt)
    then show ?thesis by (simp add: tail comp_def)
  qed
  then have "concat (map (\<lambda>k. drop ov (token_window p tokens k)) [1..<m])
        = take ((m - 1) * st) (drop S tokens)"
    by (simp add: concat_consecutive_takes)
  moreover have "token_window p tokens 0 = take S tokens"
    by (simp add: token_window_def window_start_def S_def)
  moreover have "take S tokens @ take ((m - 1) * st) (drop S tokens) = take (S + (m - 1) * st) tokens"
    by (simp add: take_add)
  moreover have "length tokens \<le> S + (m - 1) * st"
    using m(2) by (simp add: window_start_def S_def st_def)
  ultimately show ?thesis by (simp add: ov_def)
qed

text \<open>
  Claim C2. When the text has more than \<open>chunk_size\<close> tokens (and the settings satisfy
  \<open>0 \<le> chunk_overlap < chunk_size\<close>, as the configured 200 and 1000 do), \<open>chunk_text\<close>
  returns, and its chunks are the decoded windows number \<open>0\<close> to \<open>m - 1\<close>: window \<open>k\<close>
  starts at the offset \<open>k * (chunk_size - chunk_overlap)\<close> and carries \<open>chunk_id = k\<close>.
  Every token position lies in one of these windows, at the right place, and the first
  window followed by the later windows without their first \<open>chunk_overlap\<close> tokens is
  the token sequence again: nothing is dropped, the last, shorter window included.
\<close>

theorem chunk_text_coverage:
  assumes "encode p text = Inr tokens"
    and "chunk_size p < int (length tokens)"
    and "0 \<le> chunk_overlap p"
    and "chunk_overlap p < chunk_size p"
  shows "\<exists>m>0. chunk_text p text fp lang
                 = Some (Inr (map (window_chunk p tokens fp lang) [0..<m]))
           \<and> (\<forall>i<length tokens. \<exists>k<m. window_start p k \<le> i
                  \<and> i < window_start p k + length (token_window p tokens k)
                  \<and> token_window p tokens k ! (i - window_start p k) = tokens ! i)
           \<and> concat (token_window p tokens 0
                  # map (\<lambda>k. drop (nat (chunk_overlap p)) (token_window p tokens k)) [1..<m])
               = tokens"
proof -
  have "0 < int (length tokens)" using assms(2,3,4) by linarith
  then have "window_start p 0 < length tokens" by (simp add: window_start_def)
  from chunk_loop_windows [OF assms(3,4) this, of fp lang "[]"]
  obtain m where m: "0 < m"
    and run: "chunk_loop p tokens fp lang 0 0 [] = Some (map (window_chunk p tokens fp lang) [0..<m])"
    and last: "length tokens \<le> window_start p (m - 1) + nat (chunk_size p)"
    by (auto simp: window_start_def)
  have "chunk_text p text fp lang = Some (Inr (map (window_chunk p tokens fp lang) [0..<m]))"
    using assms(1,2) run by (simp add: chunk_text_def)
  moreover have "\<forall>i<length tokens. \<exists>k<m. window_start p k \<le> i
                  \<and> i < window_start p k + length (token_window p tokens k)
                  \<and> token_window p tokens k ! (i - window_start p k) = tokens ! i"
    using windows_cover [OF assms(3,4) m last] by blast
  moreover note windows_concat [OF assms(3,4) m last]
  ultimately show ?thesis using m by blast
qed

theorem chunk_text_coverage_witness:
  "\<exists>m>0. chunk_text (CodeParser_init char_encode char_decode) (replicate 1500 (CHR ''a''))
            ''b.py'' ''python''
          = Some (Inr (map (window_chunk (CodeParser_init char_encode char_decode)
                             (map of_char (replicate 1500 (CHR ''a''))) ''b.py'' ''python'') [0..<m]))
     \<and> (\<forall>i<length (map of_char (replicate 1500 (CHR ''a'')) :: nat list).
           \<exists>k<m. window_start (CodeParser_init char_encode char_decode) k \<le> i
             \<and> i < window_start (CodeParser_init char_encode char_decode) k
                   + length (token_window (CodeParser_init char_encode char_decode)
                               (map of_char (replicate 1500 (CHR ''a''))) k)
             \<and> token_window (CodeParser_init char_encode char_decode)
                   (map of_char (replicate 1500 (CHR ''a''))) k
                   ! (i - window_start (CodeParser_init char_encode char_decode) k)
                 = map of_char (replicate 1500 (CHR ''a'')) ! i)
     \<and> concat (token_window (CodeParser_init char_encode char_decode)
                  (map of_char (replicate 1500 (CHR ''a''))) 0
                # map (\<lambda>k. drop (nat (chunk_overlap (CodeParser_init char_encode char_decode)))
                             (token_window (CodeParser_init char_encode char_decode)
                                (map of_char (replicate 1500 (CHR ''a''))) k)) [1..<m])
         = map of_char (replicate 1500 (CHR ''a''))"
proof -
  let ?p = "CodeParser_init char_encode char_decode"
  have h1: "encode ?p (replicate 1500 (CHR ''a'')) = Inr (map of_char (replicate 1500 (CHR ''a'')))"
    by (simp add: CodeParser_init_def char_encode_def)
  have h2: "chunk_size ?p < int (length (map of_char (replicate 1500 (CHR ''a'')) :: nat list))"
    by (simp add: CodeParser_init_def CHUNK_SIZE_def)
  have h3: "0 \<le> chunk_overlap ?p"
    by (simp add: CodeParser_init_def CHUNK_OVERLAP_def)
  have h4: "chunk_overlap ?p < chunk_size ?p"
    by (simp add: CodeParser_init_def CHUNK_OVERLAP_def CHUNK_SIZE_def)
  show ?thesis by (rule chunk_text_coverage [OF h1 h2 h3 h4])
qed

text \<open>A run with a window of 4 tokens and an overlap of 1: the windows start at 0, 3
  and 6, and the loop stops as soon as a window reaches the end of the tokens.\<close>

lemma chunk_text_example:
  "chunk_text \<lparr>chunk_size = 4, chunk_overlap = 1, encode = char_encode, decode = char_decode\<rparr>
     ''abcdefghij'' ''f.py'' ''python''
   = Some (Inr [\<lparr>content = ''abcd'', file_path = ''f.py'', language = ''python'', chunk_id = 0\<rparr>,
                \<lparr>content = ''defg'', file_path = ''f.py'', language = ''python'', chunk_id = 1\<rparr>,
                \<lparr>content = ''ghij'', file_path = ''f.py'', language = ''python'', chunk_id = 2\<rparr>])"
  by code_simp

subsection \<open>Empty texts\<close>

lemma parse_files_skips_empty:
  "sf_content f = [] \<Longrightarrow> parse_files p (f # fs) docs = parse_files p fs docs"
  by simp

text \<open>
  \<open>chunk_text\<close> on the empty text does not return an empty list: the empty text has no
  tokens, so the single-chunk branch returns one chunk with empty content.
\<close>

theorem chunk_text_empty_counterexample:
  "chunk_text (CodeParser_init char_encode char_decode) [] ''a.py'' ''python''
     = Some (Inr [\<lparr>content = [], file_path = ''a.py'', language = ''python'', chunk_id = 0\<rparr>])
   \<and> chunk_text (CodeParser_init char_encode char_decode) [] ''a.py'' ''python''
     \<noteq> Some (Inr [])"
  by (simp add: chunk_text_def CodeParser_init_def char_encode_def CHUNK_SIZE_def)

text \<open>
  Claim C8, as the code has it. For the empty text (which the encoder turns into no
  tokens) \<open>chunk_text\<close> returns one chunk, with empty content and \<open>chunk_id = 0\<close>. It
  is \<open>parse_repository\<close> that makes empty content yield no chunk: it skips a file whose
  content is empty before \<open>chunk_text\<close> is called.
\<close>

theorem empty_content_chunks:
  assumes "encode p [] = Inr []"
    and "0 \<le> chunk_size p"
  shows "chunk_text p [] fp lang
           = Some (Inr [\<lparr>content = [], file_path = fp, language = lang, chunk_id = 0\<rparr>])
         \<and> parse_repository p [\<lparr>sf_relative_path = fp, sf_suffix = sfx, sf_content = []\<rparr>]
           = Some []
         \<and> parse_files p (\<lparr>sf_relative_path = fp, sf_suffix = sfx, sf_content = []\<rparr> # fs)
             docs
           = parse_files p fs docs"
  using assms by (simp add: chunk_text_def parse_repository_def)

theorem empty_content_chunks_witness:
  "chunk_text (CodeParser_init char_encode char_decode) [] ''e.py'' ''python''
     = Some (Inr [\<lparr>content = [], file_path = ''e.py'', language = ''python'', chunk_id = 0\<rparr>])
   \<and> parse_repository (CodeParser_init char_encode char_decode)
       [\<lparr>sf_relative_path = ''e.py'', sf_suffix = ''.py'', sf_content = []\<rparr>]
     = Some []
   \<and> parse_files (CodeParser_init char_encode char_decode)
       [\<lparr>sf_relative_path = ''e.py'', sf_suffix = ''.py'', sf_content = []\<rparr>,
        \<lparr>sf_relative_path = ''a.py'', sf_suffix = ''.py'', sf_content = ''x = 1''\<rparr>]
       []
     = parse_files (CodeParser_init char_encode char_decode)
       [\<lparr>sf_relative_path = ''a.py'', sf_suffix = ''.py'', sf_content = ''x = 1''\<rparr>] []"
proof -
  have h1: "encode (CodeParser_init char_encode char_decode) [] = Inr []"
    by (simp add: CodeParser_init_def char_encode_def)
  have h2: "0 \<le> chunk_size (CodeParser_init char_encode char_decode)"
    by (simp add: CodeParser_init_def CHUNK_SIZE_def)
  show ?thesis by (rule empty_content_chunks [OF h1 h2])
qed

section \<open>Building the index\<close>

text \<open>
  Claim C7. \<open>build_index\<close> with no documents fails with the \<open>ValueError\<close> of the empty
  input before anything else happens: the state it returns is the state it was given,
  so no collection is attached, created or written.
\<close>

theorem build_index_empty:
  "build_index emb [] repo_name s =
     (Inl (ValueError ''No documents provided for indexing''), s)"
  by (simp add: build_index_def)

subsection \<open>Decimal ids\<close>





subsection \<open>Building an unpopulated collection\<close>














subsection \<open>Cache hits, ids and batches\<close>










section \<open>Retrieval\<close>

lemma similarity_clamp: "similarity d = max 0 (min 1 (1 - d ^ 2 / 2))"
  by (simp add: similarity_def py_max_def py_min_def max_def min_def)

lemma similarity_bounds: "0 \<le> similarity d \<and> similarity d \<le> 1"
  by (simp add: similarity_def py_max_def py_min_def)

lemma similarity_zero: "similarity 0 = 1"
  by (simp add: similarity_def py_max_def py_min_def)

lemma similarity_antimono:
  assumes "0 \<le> a" and "a \<le> b"
  shows "similarity b \<le> similarity a"
proof -
  have "a ^ 2 \<le> b ^ 2" by (rule power_mono [OF assms(2) assms(1)])
  then have "1 - b ^ 2 / 2 \<le> 1 - a ^ 2 / 2" by simp
  then show ?thesis unfolding similarity_clamp by (auto simp: max_def min_def)
qed

lemma map_snd_snd_zip:
  "map (\<lambda>(x, y, z). f z) (zip xs (zip ys zs)) = map f (take (min (length xs) (length ys)) zs)"
proof (induction xs arbitrary: ys zs)
  case Nil show ?case by simp
next
  case (Cons x xs)
  then show ?case by (cases ys; cases zs) auto
qed

lemma map_snd_retrieved_of:
  "map snd (retrieved_of res)
     = map similarity (take (min (length (qr_documents res)) (length (qr_metadatas res)))
                         (qr_distances res))"
  unfolding retrieved_of_def map_map
  using map_snd_snd_zip [of similarity "qr_documents res" "qr_metadatas res" "qr_distances res"]
  by (simp add: comp_def split_def)

lemma length_retrieved_of:
  "length (retrieved_of res)
     = min (length (qr_documents res)) (min (length (qr_metadatas res)) (length (qr_distances res)))"
  by (simp add: retrieved_of_def)

lemma retrieve_run:
  assumes "collection s = Some name"
    and "emb q = Inr v"
    and "qry (collection_records s) v (min (resolve_top_k k) (int (collection_count s))) = Inr res"
  shows "retrieve emb qry q k s = (Inr (retrieved_of res), s\<lparr>embed_calls := embed_calls s @ [q]\<rparr>)"
  using assms
  by (simp add: retrieve_def embed_text_def collection_records_def collection_count_def)

lemma retrieve_Inr:
  assumes "fst (retrieve emb qry q k s) = Inr rs"
  shows "\<exists>v res. qry (collection_records s) v (min (resolve_top_k k) (int (collection_count s)))
                   = Inr res \<and> rs = retrieved_of res"
  using assms
  by (fastforce simp: retrieve_def embed_text_def collection_records_def collection_count_def
      Let_def split: option.splits sum.splits)

text \<open>
  Claim C3. When a collection is attached and the embedding request and the index query
  succeed, \<open>retrieve\<close> returns one pair per position of the answer, and at every
  position the score is \<open>max 0 (min 1 (1 - d\<^sup>2 / 2))\<close> for the distance \<open>d\<close> at that
  position: it lies between 0 and 1, and it is 1 when \<open>d = 0\<close>.
\<close>

theorem retrieve_similarity:
  assumes "collection s = Some name"
    and "emb q = Inr v"
    and "qry (collection_records s) v (min (resolve_top_k k) (int (collection_count s))) = Inr res"
  shows "\<exists>rs s'. retrieve emb qry q k s = (Inr rs, s')
           \<and> length rs = min (length (qr_documents res))
                            (min (length (qr_metadatas res)) (length (qr_distances res)))
           \<and> (\<forall>i<length rs.
                  snd (rs ! i) = max 0 (min 1 (1 - (qr_distances res ! i) ^ 2 / 2))
                \<and> 0 \<le> snd (rs ! i) \<and> snd (rs ! i) \<le> 1
                \<and> (qr_distances res ! i = 0 \<longrightarrow> snd (rs ! i) = 1))"
proof -
  let ?rs = "retrieved_of res"
  have nth: "snd (?rs ! i) = similarity (qr_distances res ! i)" if "i < length ?rs" for i
  proof -
    have "snd (?rs ! i) = map snd ?rs ! i" using that by simp
    also have "\<dots> = similarity (qr_distances res ! i)"
      using that unfolding map_snd_retrieved_of by (simp add: length_retrieved_of)
    finally show ?thesis .
  qed
  have "\<forall>i<length ?rs.
            snd (?rs ! i) = max 0 (min 1 (1 - (qr_distances res ! i) ^ 2 / 2))
          \<and> 0 \<le> snd (?rs ! i) \<and> snd (?rs ! i) \<le> 1
          \<and> (qr_distances res ! i = 0 \<longrightarrow> snd (?rs ! i) = 1)"
  proof (intro allI impI)
    fix i assume i: "i < length ?rs"
    show "snd (?rs ! i) = max 0 (min 1 (1 - (qr_distances res ! i) ^ 2 / 2))
          \<and> 0 \<le> snd (?rs ! i) \<and> snd (?rs ! i) \<le> 1
          \<and> (qr_distances res ! i = 0 \<longrightarrow> snd (?rs ! i) = 1)"
      unfolding nth [OF i]
      by (metis similarity_clamp similarity_bounds similarity_zero)
  qed
  moreover have "retrieve emb qry q k s
                   = (Inr ?rs, s\<lparr>embed_calls := embed_calls s @ [q]\<rparr>)"
    by (rule retrieve_run [where name = name and v = v]) (rule assms)+
  ultimately show ?thesis
    using length_retrieved_of by blast
qed

theorem retrieve_similarity_witness:
  "\<exists>rs s'. retrieve demo_embed knn_query ''SELECT 123'' (Some 2) indexed_retriever = (Inr rs, s')
     \<and> length rs = min (length (qr_documents demo_answer))
                      (min (length (qr_metadatas demo_answer)) (length (qr_distances demo_answer)))
     \<and> (\<forall>i<length rs.
            snd (rs ! i) = max 0 (min 1 (1 - (qr_distances demo_answer ! i) ^ 2 / 2))
          \<and> 0 \<le> snd (rs ! i) \<and> snd (rs ! i) \<le> 1
          \<and> (qr_distances demo_answer ! i = 0 \<longrightarrow> snd (rs ! i) = 1))"
proof -
  have h1: "collection indexed_retriever = Some ''repo_demo''" by code_simp
  have h2: "demo_embed ''SELECT 123'' = Inr [1, 1]" by code_simp
  have h3: "knn_query (collection_records indexed_retriever) [1, 1]
              (min (resolve_top_k (Some 2)) (int (collection_count indexed_retriever)))
            = Inr demo_answer"
    by code_simp
  show ?thesis
    by (rule retrieve_similarity [where name = "''repo_demo''" and v = "[1, 1]"])
       (rule h1 h2 h3)+
qed

lemma sorted_similarities:
  assumes "sorted ds" and "\<forall>d \<in> set ds. 0 \<le> d"
  shows "sorted_wrt (\<ge>) (map similarity ds)"
  using assms
proof (induction ds)
  case Nil show ?case by simp
next
  case (Cons d ds)
  then show ?case by (auto intro: similarity_antimono)
qed

lemma nth_retrieved_of:
  assumes "i < length (retrieved_of res)"
  shows "content (fst (retrieved_of res ! i)) = qr_documents res ! i
       \<and> snd (retrieved_of res ! i) = similarity (qr_distances res ! i)"
  using assms by (simp add: retrieved_of_def)

text \<open>
  Claim C6. When the index answers in ascending order of distance (distances are not
  negative), the scores of the list that \<open>retrieve\<close> returns never increase along the
  list. \<open>retrieve\<close> keeps the order of the answer: position \<open>i\<close> of its result carries
  the text and the score of position \<open>i\<close> of what the index returned.
\<close>

theorem retrieve_ordering:
  assumes "ascending_index qry"
    and "fst (retrieve emb qry q k s) = Inr rs"
  shows "sorted_wrt (\<ge>) (map snd rs)
       \<and> (\<exists>v res. qry (collection_records s) v
                      (min (resolve_top_k k) (int (collection_count s))) = Inr res
             \<and> (\<forall>i<length rs. content (fst (rs ! i)) = qr_documents res ! i
                               \<and> snd (rs ! i) = similarity (qr_distances res ! i)))"
proof -
  from retrieve_Inr [OF assms(2)] obtain v res
    where res: "qry (collection_records s) v (min (resolve_top_k k) (int (collection_count s))) = Inr res"
      and rs: "rs = retrieved_of res" by blast
  from assms(1) res have asc: "sorted (qr_distances res)" "\<forall>d \<in> set (qr_distances res). 0 \<le> d"
    unfolding ascending_index_def by blast+
  let ?ds = "take (min (length (qr_documents res)) (length (qr_metadatas res))) (qr_distances res)"
  have "sorted ?ds" using asc(1) by (rule sorted_wrt_take)
  moreover have "\<forall>d \<in> set ?ds. 0 \<le> d" using asc(2) by (meson in_set_takeD)
  ultimately have "sorted_wrt (\<ge>) (map snd rs)"
    unfolding rs map_snd_retrieved_of by (rule sorted_similarities)
  moreover have "\<forall>i<length rs. content (fst (rs ! i)) = qr_documents res ! i
                               \<and> snd (rs ! i) = similarity (qr_distances res ! i)"
    unfolding rs using nth_retrieved_of by blast
  ultimately show ?thesis using res by blast
qed

lemma l2_distance_nonneg: "0 \<le> l2_distance u v"
  unfolding l2_distance_def by (rule sum_list_nonneg) auto

lemma ascending_knn_query: "ascending_index knn_query"
proof -
  have "sorted (map f (take n (sort_key f recs)))" for f :: "stored_record \<Rightarrow> real" and n recs
    by (simp add: take_map [symmetric] sorted_wrt_take)
  then show ?thesis
    by (auto simp: ascending_index_def knn_query_def Let_def l2_distance_nonneg)
qed

theorem retrieve_ordering_witness:
  "ascending_index knn_query
   \<and> sorted_wrt (\<ge>) (map snd [(doc_db, 1249 / 1250 :: real), (doc_auth, 17599 / 20000)])"
proof -
  have h1: "ascending_index knn_query" by (rule ascending_knn_query)
  have h2: "fst (retrieve demo_embed knn_query ''SELECT 123'' None indexed_retriever)
            = Inr [(doc_db, 1249 / 1250), (doc_auth, 17599 / 20000)]"
    by code_simp
  show ?thesis using h1 retrieve_ordering [OF h1 h2, THEN conjunct1] by (rule conjI)
qed

lemma length_knn_query:
  "knn_query recs v n = Inr res \<Longrightarrow>
     length (retrieved_of res) = min (nat n) (length recs)"
  by (auto simp: knn_query_def Let_def length_retrieved_of)

lemma resolve_top_k_zero: "resolve_top_k (Some 0) = resolve_top_k None"
  by (simp add: resolve_top_k_def)

text \<open>In every state, \<open>top_k = 0\<close> and no \<open>top_k\<close> give the same call.\<close>

lemma retrieve_zero_is_default:
  "retrieve emb qry q (Some 0) s = retrieve emb qry q None s"
  unfolding retrieve_def resolve_top_k_zero by (rule refl)

text \<open>
  Claim C10. \<open>top_k = 0\<close> is false in \<^verbatim>\<open>top_k or Settings.TOP_K_RESULTS\<close>, so
  \<open>retrieve(query, top_k=0)\<close> is \<open>retrieve(query)\<close>: on an attached, populated collection
  the index is asked for \<open>min(5, count) \<ge> 1\<close> neighbours and its answer is returned. With
  the exact nearest-neighbour index \<open>knn_query\<close> that is a list of \<open>min(5, count)\<close>
  results, not an empty one.
\<close>

theorem retrieve_top_k_zero:
  assumes "collection s = Some name"
    and "0 < collection_count s"
    and "emb q = Inr v"
    and "qry (collection_records s) v (min TOP_K_RESULTS (int (collection_count s))) = Inr res"
  shows "retrieve emb qry q (Some 0) s = retrieve emb qry q None s
       \<and> retrieve emb qry q (Some 0) s
           = (Inr (retrieved_of res), s\<lparr>embed_calls := embed_calls s @ [q]\<rparr>)
       \<and> 1 \<le> min TOP_K_RESULTS (int (collection_count s))
       \<and> (\<exists>rs s'. retrieve emb knn_query q (Some 0) s = (Inr rs, s')
                 \<and> length rs = min 5 (collection_count s) \<and> rs \<noteq> [])"
proof -
  have same: "retrieve emb qry q (Some 0) s = retrieve emb qry q None s"
    by (rule retrieve_zero_is_default)
  have k: "resolve_top_k (Some 0) = TOP_K_RESULTS" by (simp add: resolve_top_k_def)
  have ans: "qry (collection_records s) v (min (resolve_top_k (Some 0)) (int (collection_count s)))
          = Inr res"
    unfolding k by (rule assms(4))
  have run: "retrieve emb qry q (Some 0) s
                    = (Inr (retrieved_of res), s\<lparr>embed_calls := embed_calls s @ [q]\<rparr>)"
    by (rule retrieve_run [where name = name and v = v]) (rule assms(1) assms(3) ans)+
  have pos: "1 \<le> min TOP_K_RESULTS (int (collection_count s))"
    using assms(2) by (simp add: TOP_K_RESULTS_def)
  obtain res' where res': "knn_query (collection_records s) v
                             (min (resolve_top_k (Some 0)) (int (collection_count s))) = Inr res'"
    by (simp add: knn_query_def Let_def)
  have "retrieve emb knn_query q (Some 0) s
               = (Inr (retrieved_of res'), s\<lparr>embed_calls := embed_calls s @ [q]\<rparr>)"
    by (rule retrieve_run [where name = name and v = v]) (rule assms(1) assms(3) res')+
  moreover have "length (retrieved_of res') = min 5 (collection_count s)"
    using length_knn_query [OF res'] by (simp add: k TOP_K_RESULTS_def collection_count_def)
  moreover have "retrieved_of res' \<noteq> []"
    using calculation(2) assms(2) by auto
  ultimately show ?thesis using same run pos by blast
qed

theorem retrieve_top_k_zero_witness:
  "retrieve demo_embed knn_query ''SELECT 123'' (Some 0) indexed_retriever
     = retrieve demo_embed knn_query ''SELECT 123'' None indexed_retriever
   \<and> retrieve demo_embed knn_query ''SELECT 123'' (Some 0) indexed_retriever
       = (Inr (retrieved_of demo_answer),
          indexed_retriever\<lparr>embed_calls := embed_calls indexed_retriever @ [''SELECT 123'']\<rparr>)
   \<and> 1 \<le> min TOP_K_RESULTS (int (collection_count indexed_retriever))
   \<and> (\<exists>rs s'. retrieve demo_embed knn_query ''SELECT 123'' (Some 0) indexed_retriever = (Inr rs, s')
             \<and> length rs = min 5 (collection_count indexed_retriever) \<and> rs \<noteq> [])"
proof -
  have h1: "collection indexed_retriever = Some ''repo_demo''" by code_simp
  have h2: "0 < collection_count indexed_retriever" by code_simp
  have h3: "demo_embed ''SELECT 123'' = Inr [1, 1]" by code_simp
  have h4: "knn_query (collection_records indexed_retriever) [1, 1]
              (min TOP_K_RESULTS (int (collection_count indexed_retriever)))
            = Inr demo_answer"
    by code_simp
  show ?thesis
    by (rule retrieve_top_k_zero [where name = "''repo_demo''" and v = "[1, 1]"])
       (rule h1 h2 h3 h4)+
qed

text \<open>The sample index, queried with \<open>top_k = 0\<close>: both documents come back, the
  nearer one first.\<close>

lemma retrieve_example:
  "fst (retrieve demo_embed knn_query ''SELECT 123'' (Some 0) indexed_retriever)
     = Inr [(doc_db, 1249 / 1250), (doc_auth, 17599 / 20000)]"
  by code_simp

end
